theory Spec2Isabelle
  imports Complex_Main "HOL-Library.Sublist"
begin

section \<open>Python values and exceptions\<close>

text \<open>
  The module \<^verbatim>\<open>database/data_access_models.py\<close> declares three Django models
  (\<^verbatim>\<open>ChunkRegistry\<close>, \<^verbatim>\<open>FileToProcess\<close>, \<^verbatim>\<open>FileProcessLock\<close>) and three exception
  classes. Every operation is a class method or a method that reads and writes a database
  table; a table is modelled as the list of its rows in insertion order, and an operation
  takes the table and returns its outcome together with the table it leaves. An exception
  is the \<open>Inl\<close> of the outcome; the table returned with it is the table at the moment of
  the raise.
\<close>

datatype error =
    FileProcessingLockedError
  | UnchunkableDataTypeError
  | ChunkableDataTypeError
  | ValueError
  | OverflowError
  | AttributeError
  | TypeError
  | DoesNotExist
  | MultipleObjectsReturned

type_synonym bytes = string

text \<open>
  A naive \<^verbatim>\<open>datetime\<close> is counted in microseconds on its own calendar, so that the
  difference of two of them (a \<^verbatim>\<open>timedelta\<close>) is again a count of microseconds.
\<close>

type_synonym datetime = int
type_synonym timedelta = int

text \<open>
  The raw time bin handed to the registration methods is a Python number: an \<^verbatim>\<open>int\<close>
  (unbounded) or a \<^verbatim>\<open>float\<close>. Every finite float is a rational number, and the only
  operation the module applies to it is \<^verbatim>\<open>int(...)\<close>, which is exact.
\<close>

datatype pynum = PyInt int | PyFloat rat | PyNaN | PyInf

text \<open>
  Python's \<^verbatim>\<open>int(x)\<close>: the identity on an \<^verbatim>\<open>int\<close>, truncation towards zero on a
  finite float, \<^verbatim>\<open>ValueError\<close> on a NaN and \<^verbatim>\<open>OverflowError\<close> on an infinity.
\<close>

fun py_int :: "pynum \<Rightarrow> error + int" where
  "py_int (PyInt n) = Inr n"
| "py_int (PyFloat r) = Inr (if r < 0 then - \<lfloor>- r\<rfloor> else \<lfloor>r\<rfloor>)"
| "py_int PyNaN = Inl ValueError"
| "py_int PyInf = Inl OverflowError"

section \<open>The hash provider\<close>

text \<open>
  Modelled from the spec: \<^verbatim>\<open>libs.security\<close> (\<^verbatim>\<open>chunk_hash\<close> and
  \<^verbatim>\<open>low_memory_chunk_hash\<close>) is imported by the module and is not among the sources.
  The spec treats the hash algorithm as pluggable: \<^verbatim>\<open>hash(bytes) -> string\<close> takes the
  content as one buffer, \<^verbatim>\<open>hashStreamed(sequenceOfByteBuffers) -> string\<close> is fed the
  content "as successive fragments instead of one buffer", "without materializing the whole
  buffer". The pluggable part is a digest: a starting state, the absorption of one byte,
  and the rendering of the final state as the fingerprint string. The one-buffer variant
  absorbs the bytes of the buffer; the streamed variant absorbs the fragments one after
  the other, carrying the state from each fragment to the next.
\<close>

record 'st digest =
  digest_new :: 'st
  digest_byte :: "'st \<Rightarrow> char \<Rightarrow> 'st"
  digest_render :: "'st \<Rightarrow> string"

definition digest_update :: "'st digest \<Rightarrow> 'st \<Rightarrow> bytes \<Rightarrow> 'st" where
  "digest_update d s data = foldl (digest_byte d) s data"

definition chunk_hash_fn :: "'st digest \<Rightarrow> bytes \<Rightarrow> string" where
  "chunk_hash_fn d data = digest_render d (digest_update d (digest_new d) data)"

definition low_memory_chunk_hash :: "'st digest \<Rightarrow> bytes list \<Rightarrow> string" where
  "low_memory_chunk_hash d list_data =
     digest_render d (foldl (digest_update d) (digest_new d) list_data)"

section \<open>Configuration and environment\<close>

text \<open>
  \<^verbatim>\<open>CHUNKABLE_FILES\<close> and \<^verbatim>\<open>CHUNK_TIMESLICE_QUANTUM\<close> come from
  \<^verbatim>\<open>config.constants\<close>, which is not among the sources; they are parameters, as are
  the hash provider and \<^verbatim>\<open>datetime.fromtimestamp\<close>, whose result depends on the
  host's time zone and whose range on the platform.
\<close>

record 'st env =
  CHUNKABLE_FILES :: "string list"
  CHUNK_TIMESLICE_QUANTUM :: int
  hash_provider :: "'st digest"
  fromtimestamp :: "pynum \<Rightarrow> error + datetime"

section \<open>Models and tables\<close>

text \<open>
  Every model class derives from \<^verbatim>\<open>AbstractModel\<close> (\<^verbatim>\<open>database.base_models\<close>, not
  among the sources); what the module uses of it is what Django gives every model: a
  primary key \<^verbatim>\<open>pk\<close> and the manager \<^verbatim>\<open>objects\<close>.
\<close>

record abstract_model =
  pk :: nat

text \<open>
  \<^verbatim>\<open>cls.objects.create(...)\<close> inserts one row at the end of the table; the database
  gives it a primary key larger than every key in the table. The key is taken here as
  the successor of the largest key present. The database draws it from a counter that
  never goes back, so after a deletion (only \<^verbatim>\<open>unlock\<close> deletes) the key it gives is
  larger than this one; the statements on tables that \<^verbatim>\<open>unlock\<close> has emptied therefore
  speak of the rows' \<open>lock_time\<close> and not of their keys. What the database itself
  checks on insertion (that a foreign key exists, the width of a column) is not part of
  the module and is not modelled: \<^verbatim>\<open>create\<close> stores the row it is given.
\<close>

definition fresh_pk :: "'a abstract_model_scheme list \<Rightarrow> nat" where
  "fresh_pk t = Suc (foldr max (map pk t) 0)"

section \<open>ChunkRegistry\<close>

record chunk_registry = abstract_model +
  is_chunkable :: bool
  chunk_path :: string
  chunk_hash :: string
  data_type :: string
  time_bin :: datetime
  study_id :: nat
  participant_id :: nat
  survey_id :: "nat option"

definition objects_create ::
  "bool \<Rightarrow> string \<Rightarrow> string \<Rightarrow> string \<Rightarrow> datetime \<Rightarrow> nat \<Rightarrow> nat \<Rightarrow> nat option \<Rightarrow>
   chunk_registry list \<Rightarrow> chunk_registry list" where
  "objects_create ic cp ch dt tb sid pid svid t =
     t @ [\<lparr>pk = fresh_pk t, is_chunkable = ic, chunk_path = cp, chunk_hash = ch,
           data_type = dt, time_bin = tb, study_id = sid, participant_id = pid,
           survey_id = svid\<rparr>]"

definition register_chunked_data ::
  "'st env \<Rightarrow> string \<Rightarrow> pynum \<Rightarrow> string \<Rightarrow> bytes \<Rightarrow> nat \<Rightarrow> nat \<Rightarrow> nat option \<Rightarrow>
   chunk_registry list \<Rightarrow> (error + unit) \<times> chunk_registry list" where
  "register_chunked_data env dt tb_raw cp file_contents sid pid svid t =
     (if dt \<notin> set (CHUNKABLE_FILES env) then (Inl UnchunkableDataTypeError, t)
      else
        (case py_int tb_raw of
           Inl e \<Rightarrow> (Inl e, t)
         | Inr n \<Rightarrow>
             (let tb = n * CHUNK_TIMESLICE_QUANTUM env;
                  chunk_hash_str = chunk_hash_fn (hash_provider env) file_contents
              in (case fromtimestamp env (PyInt tb) of
                    Inl e \<Rightarrow> (Inl e, t)
                  | Inr d \<Rightarrow>
                      (Inr (), objects_create True cp chunk_hash_str dt d sid pid svid t)))))"

definition register_unchunked_data ::
  "'st env \<Rightarrow> string \<Rightarrow> pynum \<Rightarrow> string \<Rightarrow> nat \<Rightarrow> nat \<Rightarrow> nat option \<Rightarrow>
   chunk_registry list \<Rightarrow> (error + unit) \<times> chunk_registry list" where
  "register_unchunked_data env dt tb_raw cp sid pid svid t =
     (if dt \<in> set (CHUNKABLE_FILES env) then (Inl ChunkableDataTypeError, t)
      else
        (case fromtimestamp env tb_raw of
           Inl e \<Rightarrow> (Inl e, t)
         | Inr d \<Rightarrow> (Inr (), objects_create False cp [] dt d sid pid svid t)))"

text \<open>
  \<^verbatim>\<open>self.save()\<close> writes the fields of the instance to the row of its primary key, and
  inserts the instance when the table has no such row.
\<close>

definition save :: "chunk_registry \<Rightarrow> chunk_registry list \<Rightarrow> chunk_registry list" where
  "save self t =
     (if pk self \<in> pk ` set t then map (\<lambda>r. if pk r = pk self then self else r) t
      else t @ [self])"

definition update_chunk_hash ::
  "'st env \<Rightarrow> chunk_registry \<Rightarrow> bytes \<Rightarrow> chunk_registry list \<Rightarrow>
   chunk_registry \<times> chunk_registry list" where
  "update_chunk_hash env self data_to_hash t =
     (let self' = self\<lparr>chunk_hash := chunk_hash_fn (hash_provider env) data_to_hash\<rparr>
      in (self', save self' t))"

definition low_memory_update_chunk_hash ::
  "'st env \<Rightarrow> chunk_registry \<Rightarrow> bytes list \<Rightarrow> chunk_registry list \<Rightarrow>
   chunk_registry \<times> chunk_registry list" where
  "low_memory_update_chunk_hash env self list_data_to_hash t =
     (let self' =
        self\<lparr>chunk_hash := low_memory_chunk_hash (hash_provider env) list_data_to_hash\<rparr>
      in (self', save self' t))"

subsection \<open>The range query\<close>

text \<open>
  The optional arguments of \<^verbatim>\<open>get_chunks_time_range\<close> default to \<^verbatim>\<open>None\<close>, and each is
  tested with a bare \<^verbatim>\<open>if\<close>, that is by Python's truth value. A list argument is
  \<open>None\<close>, or \<open>Some\<close> of a list, which is false when empty. A time argument is
  \<^verbatim>\<open>None\<close>, a \<^verbatim>\<open>datetime\<close> (always true), or some other value that is false in an
  \<^verbatim>\<open>if\<close> (\<^verbatim>\<open>0\<close>, \<^verbatim>\<open>''\<close>, ...): the branch is skipped for all of these alike, so
  they need not be told apart.
\<close>

datatype timearg = ArgNone | ArgFalsy | ArgDatetime datetime

fun truthy_list :: "'a list option \<Rightarrow> bool" where
  "truthy_list None = False"
| "truthy_list (Some xs) = (xs \<noteq> [])"

fun truthy_time :: "timearg \<Rightarrow> bool" where
  "truthy_time (ArgDatetime d) = True"
| "truthy_time ArgNone = False"
| "truthy_time ArgFalsy = False"

text \<open>
  The \<^verbatim>\<open>query\<close> dictionary is the list of its lookups; \<^verbatim>\<open>filter(**query)\<close> keeps the
  rows that satisfy every one of them. The lookup \<^verbatim>\<open>participant__patient_id__in\<close> joins
  the participants' table, which is given as the map from a participant's primary key to
  its \<^verbatim>\<open>patient_id\<close>.
\<close>

datatype lookup =
    Study_id nat
  | Participant__patient_id__in "string list"
  | Data_type__in "string list"
  | Time_bin__gte datetime
  | Time_bin__lte datetime

fun matches :: "(nat \<rightharpoonup> string) \<Rightarrow> chunk_registry \<Rightarrow> lookup \<Rightarrow> bool" where
  "matches patient_id r (Study_id s) = (study_id r = s)"
| "matches patient_id r (Participant__patient_id__in us) =
     (case patient_id (participant_id r) of None \<Rightarrow> False | Some p \<Rightarrow> p \<in> set us)"
| "matches patient_id r (Data_type__in ds) = (data_type r \<in> set ds)"
| "matches patient_id r (Time_bin__gte d) = (d \<le> time_bin r)"
| "matches patient_id r (Time_bin__lte d) = (time_bin r \<le> d)"

definition objects_filter ::
  "(nat \<rightharpoonup> string) \<Rightarrow> lookup list \<Rightarrow> chunk_registry list \<Rightarrow> chunk_registry list" where
  "objects_filter patient_id query t = filter (\<lambda>r. list_all (matches patient_id r) query) t"

definition get_chunks_time_range ::
  "(nat \<rightharpoonup> string) \<Rightarrow> nat \<Rightarrow> string list option \<Rightarrow> string list option \<Rightarrow>
   timearg \<Rightarrow> timearg \<Rightarrow> chunk_registry list \<Rightarrow> chunk_registry list" where
  "get_chunks_time_range patient_id sid user_ids data_types start end t =
     (let query = [Study_id sid];
          query = (if truthy_list user_ids
                   then query @ [Participant__patient_id__in (the user_ids)] else query);
          query = (if truthy_list data_types
                   then query @ [Data_type__in (the data_types)] else query);
          query = (if truthy_time start
                   then (case start of ArgDatetime d \<Rightarrow> query @ [Time_bin__gte d]
                         | _ \<Rightarrow> query)
                   else query);
          query = (if truthy_time end
                   then (case end of ArgDatetime d \<Rightarrow> query @ [Time_bin__lte d]
                         | _ \<Rightarrow> query)
                   else query)
      in objects_filter patient_id query t)"

text \<open>
  The range query as the specification words it: a filter restricts the result whenever
  it is provided (\<open>Some\<close>), and the time bounds are inclusive.
\<close>

definition get_range_spec ::
  "(nat \<rightharpoonup> string) \<Rightarrow> nat \<Rightarrow> string list option \<Rightarrow> string list option \<Rightarrow>
   datetime option \<Rightarrow> datetime option \<Rightarrow> chunk_registry list \<Rightarrow> chunk_registry list" where
  "get_range_spec patient_id sid participantIds dataTypes start end t =
     filter (\<lambda>r.
        study_id r = sid \<and>
        (case participantIds of None \<Rightarrow> True
         | Some us \<Rightarrow> (case patient_id (participant_id r) of None \<Rightarrow> False
                       | Some p \<Rightarrow> p \<in> set us)) \<and>
        (case dataTypes of None \<Rightarrow> True | Some ds \<Rightarrow> data_type r \<in> set ds) \<and>
        (case start of None \<Rightarrow> True | Some d \<Rightarrow> d \<le> time_bin r) \<and>
        (case end of None \<Rightarrow> True | Some d \<Rightarrow> time_bin r \<le> d)) t"

text \<open>What Python's truth value leaves of an argument: a false one counts as not given.\<close>

fun given_list :: "'a list option \<Rightarrow> 'a list option" where
  "given_list None = None"
| "given_list (Some xs) = (if xs = [] then None else Some xs)"

fun given_time :: "timearg \<Rightarrow> datetime option" where
  "given_time (ArgDatetime d) = Some d"
| "given_time ArgNone = None"
| "given_time ArgFalsy = None"

section \<open>FileToProcess\<close>

text \<open>
  \<^verbatim>\<open>Study\<close> (\<^verbatim>\<open>database.study_models\<close>) is not among the sources; the module reads its
  primary key and its \<^verbatim>\<open>object_id\<close>. The keyword arguments passed through to
  \<^verbatim>\<open>create\<close> are the remaining field of the model, the participant.
\<close>

record study = abstract_model +
  object_id :: string

record file_to_process = abstract_model +
  s3_file_path :: string
  study :: nat
  participant :: nat

text \<open>
  \<^verbatim>\<open>Study.objects.filter(object_id=...).values_list('pk', flat=True).get()\<close>: the key of
  the one study with that identifier; \<^verbatim>\<open>get\<close> raises \<^verbatim>\<open>DoesNotExist\<close> when there is
  none and \<^verbatim>\<open>MultipleObjectsReturned\<close> when there are several.
\<close>

definition study_pk_get :: "study list \<Rightarrow> string \<Rightarrow> error + nat" where
  "study_pk_get studies study_object_id =
     (case map pk (filter (\<lambda>s. object_id s = study_object_id) studies) of
        [] \<Rightarrow> Inl DoesNotExist
      | [k] \<Rightarrow> Inr k
      | _ \<Rightarrow> Inl MultipleObjectsReturned)"

definition append_file_for_processing ::
  "study list \<Rightarrow> string \<Rightarrow> string \<Rightarrow> nat \<Rightarrow> file_to_process list \<Rightarrow>
   (error + unit) \<times> file_to_process list" where
  "append_file_for_processing studies file_path study_object_id participant_pk t =
     (case study_pk_get studies study_object_id of
        Inl e \<Rightarrow> (Inl e, t)
      | Inr study_pk \<Rightarrow>
          (if take 24 file_path = study_object_id
           then (Inr (), t @ [\<lparr>pk = fresh_pk t, s3_file_path = file_path,
                                study = study_pk, participant = participant_pk\<rparr>])
           else (Inr (), t @ [\<lparr>pk = fresh_pk t,
                                s3_file_path = study_object_id @ ''/'' @ file_path,
                                study = study_pk, participant = participant_pk\<rparr>])))"

section \<open>FileProcessLock\<close>

record file_process_lock = abstract_model +
  lock_time :: "datetime option"

definition islocked :: "file_process_lock list \<Rightarrow> bool" where
  "islocked t = (t \<noteq> [])"

definition lock_objects_create :: "datetime \<Rightarrow> file_process_lock list \<Rightarrow> file_process_lock list" where
  "lock_objects_create utcnow t = t @ [\<lparr>pk = fresh_pk t, lock_time = Some utcnow\<rparr>]"

text \<open>The reading of the clock, \<^verbatim>\<open>datetime.utcnow()\<close>, is an argument of the call.\<close>

definition lock ::
  "datetime \<Rightarrow> file_process_lock list \<Rightarrow> (error + unit) \<times> file_process_lock list" where
  "lock utcnow t =
     (if islocked t then (Inl FileProcessingLockedError, t)
      else (Inr (), lock_objects_create utcnow t))"

definition unlock :: "file_process_lock list \<Rightarrow> (error + unit) \<times> file_process_lock list" where
  "unlock t = (Inr (), [])"

text \<open>
  \<^verbatim>\<open>objects.last()\<close> is the row of the largest primary key, that is the last row
  inserted, and \<^verbatim>\<open>None\<close> on an empty table. Reading \<^verbatim>\<open>lock_time\<close> from \<^verbatim>\<open>None\<close>
  raises \<^verbatim>\<open>AttributeError\<close>; subtracting a null \<^verbatim>\<open>lock_time\<close> from a
  \<^verbatim>\<open>datetime\<close> raises \<^verbatim>\<open>TypeError\<close>.
\<close>

definition objects_last :: "'a list \<Rightarrow> 'a option" where
  "objects_last t = (if t = [] then None else Some (last t))"

definition get_time_since_locked ::
  "datetime \<Rightarrow> file_process_lock list \<Rightarrow> (error + timedelta) \<times> file_process_lock list" where
  "get_time_since_locked utcnow t =
     (case objects_last t of
        None \<Rightarrow> (Inl AttributeError, t)
      | Some r \<Rightarrow>
          (case lock_time r of
             None \<Rightarrow> (Inl TypeError, t)
           | Some lt \<Rightarrow> (Inr (utcnow - lt), t)))"

section \<open>Sequences of calls\<close>

text \<open>
  A caller of the registry issues the four operations in any order. The two hash updates
  are methods of an instance; the caller loads it by its key
  (\<^verbatim>\<open>ChunkRegistry.objects.get(pk=k)\<close>) and the call is skipped when \<^verbatim>\<open>get\<close> raises. A
  call that raises leaves the table as the raise found it, and the caller goes on.
\<close>

datatype registry_call =
    Register_chunked_data string pynum string bytes nat nat "nat option"
  | Register_unchunked_data string pynum string nat nat "nat option"
  | Update_chunk_hash nat bytes
  | Low_memory_update_chunk_hash nat "bytes list"

definition objects_get :: "nat \<Rightarrow> chunk_registry list \<Rightarrow> error + chunk_registry" where
  "objects_get k t =
     (case filter (\<lambda>r. pk r = k) t of
        [] \<Rightarrow> Inl DoesNotExist
      | [r] \<Rightarrow> Inr r
      | _ \<Rightarrow> Inl MultipleObjectsReturned)"

fun after_call :: "'st env \<Rightarrow> chunk_registry list \<Rightarrow> registry_call \<Rightarrow> chunk_registry list" where
  "after_call env t (Register_chunked_data dt tb cp file_contents sid pid svid) =
     snd (register_chunked_data env dt tb cp file_contents sid pid svid t)"
| "after_call env t (Register_unchunked_data dt tb cp sid pid svid) =
     snd (register_unchunked_data env dt tb cp sid pid svid t)"
| "after_call env t (Update_chunk_hash k data_to_hash) =
     (case objects_get k t of
        Inl e \<Rightarrow> t
      | Inr self \<Rightarrow> snd (update_chunk_hash env self data_to_hash t))"
| "after_call env t (Low_memory_update_chunk_hash k list_data_to_hash) =
     (case objects_get k t of
        Inl e \<Rightarrow> t
      | Inr self \<Rightarrow> snd (low_memory_update_chunk_hash env self list_data_to_hash t))"

text \<open>
  The part of the record invariant that every operation keeps: the flag follows the data
  type, and a chunkable row carries a hash.
\<close>

definition classified :: "'st env \<Rightarrow> chunk_registry \<Rightarrow> bool" where
  "classified env r \<longleftrightarrow>
     (is_chunkable r \<longleftrightarrow> data_type r \<in> set (CHUNKABLE_FILES env)) \<and>
     (is_chunkable r \<longrightarrow> chunk_hash r \<noteq> [])"

definition registry_after :: "'st env \<Rightarrow> registry_call list \<Rightarrow> chunk_registry list" where
  "registry_after env calls = foldl (after_call env) [] calls"

fun is_registration :: "registry_call \<Rightarrow> bool" where
  "is_registration (Register_chunked_data dt tb cp file_contents sid pid svid) = True"
| "is_registration (Register_unchunked_data dt tb cp sid pid svid) = True"
| "is_registration (Update_chunk_hash k data_to_hash) = False"
| "is_registration (Low_memory_update_chunk_hash k list_data_to_hash) = False"

text \<open>
  The four operations of the lock, called one after the other; \<open>Lock\<close> and
  \<open>Get_time_since_locked\<close> carry the reading of the clock at the call.
\<close>

datatype lock_call = Lock datetime | Unlock | Islocked | Get_time_since_locked datetime

fun after_lock_call :: "file_process_lock list \<Rightarrow> lock_call \<Rightarrow> file_process_lock list" where
  "after_lock_call t (Lock utcnow) = snd (lock utcnow t)"
| "after_lock_call t Unlock = snd (unlock t)"
| "after_lock_call t Islocked = t"
| "after_lock_call t (Get_time_since_locked utcnow) = snd (get_time_since_locked utcnow t)"

definition lock_table_after :: "lock_call list \<Rightarrow> file_process_lock list" where
  "lock_table_after calls = foldl after_lock_call [] calls"

text \<open>
  What every table reached in this way satisfies: at most one row, and a row carries the
  time it was inserted at.
\<close>

definition stamped :: "file_process_lock list \<Rightarrow> bool" where
  "stamped t \<longleftrightarrow> length t \<le> 1 \<and> list_all (\<lambda>r. lock_time r \<noteq> None) t"

subsection \<open>Two callers of \<^verbatim>\<open>lock\<close> at once\<close>

text \<open>
  \<^verbatim>\<open>lock\<close> reaches the database twice: \<^verbatim>\<open>cls.objects.exists()\<close> (inside
  \<^verbatim>\<open>islocked\<close>) and \<^verbatim>\<open>cls.objects.create(...)\<close>. Nothing in the method joins the two
  (no transaction, no unique column), so each is one step of its caller, and the steps of
  two callers may alternate in any order. A caller stands before the test (\<open>Called\<close>),
  between the test and the insertion (\<open>Seen_unlocked\<close>), or has finished, by returning
  or by raising.
\<close>

datatype caller = Called | Seen_unlocked | Returned | Raised error

fun lock_step ::
  "datetime \<Rightarrow> caller \<Rightarrow> file_process_lock list \<Rightarrow> caller \<times> file_process_lock list" where
  "lock_step utcnow Called t =
     (if islocked t then (Raised FileProcessingLockedError, t) else (Seen_unlocked, t))"
| "lock_step utcnow Seen_unlocked t = (Returned, lock_objects_create utcnow t)"
| "lock_step utcnow Returned t = (Returned, t)"
| "lock_step utcnow (Raised e) t = (Raised e, t)"

text \<open>
  A schedule names, step by step, the caller that moves and the reading of the clock;
  the state is the two callers and the table.
\<close>

datatype who = First | Second

fun interleave ::
  "(who \<times> datetime) list \<Rightarrow> caller \<times> caller \<times> file_process_lock list \<Rightarrow>
   caller \<times> caller \<times> file_process_lock list" where
  "interleave [] s = s"
| "interleave ((First, utcnow) # sch) (a, b, t) =
     (case lock_step utcnow a t of (a', t') \<Rightarrow> interleave sch (a', b, t'))"
| "interleave ((Second, utcnow) # sch) (a, b, t) =
     (case lock_step utcnow b t of (b', t') \<Rightarrow> interleave sch (a, b', t'))"

fun finished :: "caller \<Rightarrow> bool" where
  "finished Called = False"
| "finished Seen_unlocked = False"
| "finished Returned = True"
| "finished (Raised e) = True"

text \<open>
  The bookkeeping that every step keeps: the table holds one row for each caller that has
  returned, and a caller that has raised has raised \<open>FileProcessingLockedError\<close> on a
  table that held a row.
\<close>

fun acquired :: "caller \<Rightarrow> nat" where
  "acquired Returned = 1"
| "acquired c = 0"

fun refusal_sound :: "caller \<Rightarrow> file_process_lock list \<Rightarrow> bool" where
  "refusal_sound (Raised e) t = (e = FileProcessingLockedError \<and> t \<noteq> [])"
| "refusal_sound c t = True"

fun accounted :: "caller \<times> caller \<times> file_process_lock list \<Rightarrow> bool" where
  "accounted (a, b, t) =
     (length t = acquired a + acquired b \<and> refusal_sound a t \<and> refusal_sound b t)"

section \<open>A sample environment\<close>

text \<open>
  The closed examples run in one environment: the two data streams
  \<^verbatim>\<open>accelerometer\<close> and \<^verbatim>\<open>gps\<close> are chunkable, the quantum is 3600 seconds, the
  host's zone is UTC (a timestamp in seconds becomes the datetime of as many seconds,
  a float being rounded to the microsecond, half to even, and every finite timestamp
  being in range), and the hash provider counts
  the bytes it absorbs and renders the count in unary, so that its fingerprint is never
  empty.
\<close>

definition unary_digest :: "nat digest" where
  "unary_digest =
     \<lparr>digest_new = 0, digest_byte = (\<lambda>s c. Suc s),
      digest_render = (\<lambda>s. replicate (Suc s) (CHR ''h''))\<rparr>"

definition round_half_even :: "rat \<Rightarrow> int" where
  "round_half_even x =
     (let f = \<lfloor>x\<rfloor>; d = x - of_int f
      in if d < 1 / 2 then f else if 1 / 2 < d then f + 1 else if even f then f else f + 1)"

fun fromtimestamp_utc :: "pynum \<Rightarrow> error + datetime" where
  "fromtimestamp_utc (PyInt n) = Inr (n * 1000000)"
| "fromtimestamp_utc (PyFloat r) = Inr (round_half_even (r * 1000000))"
| "fromtimestamp_utc PyNaN = Inl ValueError"
| "fromtimestamp_utc PyInf = Inl OverflowError"

definition sample_env :: "nat env" where
  "sample_env =
     \<lparr>CHUNKABLE_FILES = [''accelerometer'', ''gps''], CHUNK_TIMESLICE_QUANTUM = 3600,
      hash_provider = unary_digest, fromtimestamp = fromtimestamp_utc\<rparr>"

text \<open>
  A run of the registry for the closed examples: an unchunked registration, a chunked one,
  and a hash update on the first row.
\<close>

definition sample_calls :: "registry_call list" where
  "sample_calls =
     [Register_unchunked_data ''survey_answers'' (PyInt 1000) ''/raw/y'' 1 2 None,
      Register_chunked_data ''gps'' (PyInt 1000) ''/chunks/x'' ''data'' 1 2 None,
      Update_chunk_hash 1 ''data'']"

text \<open>
  A registry of three rows, two of study 1 and one of study 2, and the participants'
  table they refer to.
\<close>

definition sample_patient_id :: "nat \<rightharpoonup> string" where
  "sample_patient_id = [1 \<mapsto> ''patient1'', 2 \<mapsto> ''patient2'']"

definition sample_rows :: "chunk_registry list" where
  "sample_rows =
     [\<lparr>pk = 1, is_chunkable = True, chunk_path = ''/chunks/a'', chunk_hash = ''hh'',
        data_type = ''gps'', time_bin = 100, study_id = 1, participant_id = 1,
        survey_id = None\<rparr>,
      \<lparr>pk = 2, is_chunkable = True, chunk_path = ''/chunks/b'', chunk_hash = ''hh'',
        data_type = ''accelerometer'', time_bin = 500, study_id = 1, participant_id = 2,
        survey_id = None\<rparr>,
      \<lparr>pk = 3, is_chunkable = True, chunk_path = ''/chunks/c'', chunk_hash = ''hh'',
        data_type = ''gps'', time_bin = 100, study_id = 2, participant_id = 1,
        survey_id = None\<rparr>]"

section \<open>Rejected registrations\<close>

text \<open>
  C2. A data type of the chunkable set is refused by \<open>register_unchunked_data\<close> with
  \<open>ChunkableDataTypeError\<close>, and a data type outside it is refused by
  \<open>register_chunked_data\<close> with \<open>UnchunkableDataTypeError\<close>; in both cases the table is
  returned as it was, whatever the other arguments are.
\<close>

theorem register_wrong_kind_rejected:
  "(dt \<in> set (CHUNKABLE_FILES env) \<longrightarrow>
      register_unchunked_data env dt tb cp sid pid svid t = (Inl ChunkableDataTypeError, t)) \<and>
   (dt \<notin> set (CHUNKABLE_FILES env) \<longrightarrow>
      register_chunked_data env dt tb cp content sid pid svid t =
        (Inl UnchunkableDataTypeError, t))"
  by (simp add: register_unchunked_data_def register_chunked_data_def)

theorem register_wrong_kind_rejected_witness:
  "register_unchunked_data sample_env ''gps'' (PyInt 1000) ''/chunks/x'' 1 2 None [] =
     (Inl ChunkableDataTypeError, []) \<and>
   register_chunked_data sample_env ''survey_answers'' (PyInt 1000) ''/chunks/x'' ''data''
       1 2 None [] =
     (Inl UnchunkableDataTypeError, [])"
  using register_wrong_kind_rejected [of "''gps''" sample_env "PyInt 1000" "''/chunks/x''"
      1 2 None "[]" "''data''"]
    register_wrong_kind_rejected [of "''survey_answers''" sample_env "PyInt 1000"
      "''/chunks/x''" 1 2 None "[]" "''data''"]
  by (simp add: sample_env_def)

section \<open>Streamed hashing\<close>

lemma digest_update_concat:
  "foldl (digest_update d) s fragments = digest_update d s (concat fragments)"
  by (induction fragments arbitrary: s) (simp_all add: digest_update_def)

text \<open>
  C9. Whatever the digest and however the content is cut into fragments (empty fragments
  included), the streamed hash of the fragments is the hash of their concatenation; hence
  \<open>low_memory_update_chunk_hash\<close> on the fragments returns the same instance and leaves
  the same table as \<open>update_chunk_hash\<close> on the concatenation.
\<close>

theorem streamed_hash_equivalence:
  "low_memory_chunk_hash d fragments = chunk_hash_fn d (concat fragments) \<and>
   low_memory_update_chunk_hash env self fragments t =
     update_chunk_hash env self (concat fragments) t"
  by (simp add: low_memory_chunk_hash_def chunk_hash_fn_def digest_update_concat
      low_memory_update_chunk_hash_def update_chunk_hash_def)

theorem streamed_hash_equivalence_witness:
  "low_memory_chunk_hash unary_digest [''da'', [], ''ta''] =
     chunk_hash_fn unary_digest ''data'' \<and>
   chunk_hash_fn unary_digest ''data'' = ''hhhhh''"
  using streamed_hash_equivalence [of unary_digest "[''da'', [], ''ta'']", THEN conjunct1]
  by (simp add: chunk_hash_fn_def digest_update_def unary_digest_def)

section \<open>The record of a chunked registration\<close>

lemma ceiling_eq_floor_iff: "\<lceil>x::rat\<rceil> = \<lfloor>x\<rfloor> \<longleftrightarrow> x \<in> \<int>"
proof
  assume "\<lceil>x\<rceil> = \<lfloor>x\<rfloor>"
  then have "x = of_int \<lfloor>x\<rfloor>"
    by (simp add: ceiling_altdef split: if_splits)
  then show "x \<in> \<int>"
    by (metis Ints_of_int)
next
  assume "x \<in> \<int>"
  then obtain k where "x = of_int k"
    by (rule Ints_cases)
  then show "\<lceil>x\<rceil> = \<lfloor>x\<rfloor>"
    by simp
qed

lemma py_int_PyFloat_floor:
  "py_int (PyFloat x) = Inr n \<Longrightarrow>
     n = (if x < 0 then \<lceil>x\<rceil> else \<lfloor>x\<rfloor>) \<and> (n = \<lfloor>x\<rfloor> \<longleftrightarrow> 0 \<le> x \<or> x \<in> \<int>)"
  using ceiling_eq_floor_iff [of x] by (auto simp: ceiling_def)

text \<open>
  C3, as the code has it. A call of \<open>register_chunked_data\<close> that returns appends exactly
  one row. The row is chunkable, its \<open>chunk_hash\<close> is the hash of the content (never
  empty when the hash provider renders no empty fingerprint), and its \<open>time_bin\<close> is
  \<open>fromtimestamp\<close> of \<open>n * CHUNK_TIMESLICE_QUANTUM\<close>, where \<open>n\<close> is \<^verbatim>\<open>int(time_bin)\<close>:
  the number itself for an \<^verbatim>\<open>int\<close>, and for a float \<open>x\<close> its truncation towards zero,
  \<open>\<lfloor>x\<rfloor>\<close> from zero upwards and \<open>\<lceil>x\<rceil>\<close> below zero. So \<open>n\<close> is \<open>\<lfloor>x\<rfloor>\<close> exactly when
  \<open>x\<close> is not negative or is whole.
\<close>

theorem register_chunked_data_record:
  assumes "register_chunked_data env dt tb cp content sid pid svid t = (Inr (), t')"
  shows "\<exists>r n. t' = t @ [r] \<and> is_chunkable r \<and> data_type r = dt \<and>
           chunk_hash r = chunk_hash_fn (hash_provider env) content \<and>
           ((\<forall>s. digest_render (hash_provider env) s \<noteq> []) \<longrightarrow> chunk_hash r \<noteq> []) \<and>
           py_int tb = Inr n \<and>
           fromtimestamp env (PyInt (n * CHUNK_TIMESLICE_QUANTUM env)) = Inr (time_bin r) \<and>
           (case tb of
              PyInt k \<Rightarrow> n = k
            | PyFloat x \<Rightarrow>
                n = (if x < 0 then \<lceil>x\<rceil> else \<lfloor>x\<rfloor>) \<and> (n = \<lfloor>x\<rfloor> \<longleftrightarrow> 0 \<le> x \<or> x \<in> \<int>)
            | _ \<Rightarrow> False)"
proof -
  from assms obtain n d where n: "py_int tb = Inr n"
    and d: "fromtimestamp env (PyInt (n * CHUNK_TIMESLICE_QUANTUM env)) = Inr d"
    and t': "t' = objects_create True cp (chunk_hash_fn (hash_provider env) content)
               dt d sid pid svid t"
    by (auto simp: register_chunked_data_def Let_def split: if_splits sum.splits)
  let ?r = "\<lparr>pk = fresh_pk t, is_chunkable = True, chunk_path = cp,
             chunk_hash = chunk_hash_fn (hash_provider env) content, data_type = dt,
             time_bin = d, study_id = sid, participant_id = pid, survey_id = svid\<rparr>"
  have shape: "case tb of PyInt k \<Rightarrow> n = k
     | PyFloat x \<Rightarrow> n = (if x < 0 then \<lceil>x\<rceil> else \<lfloor>x\<rfloor>) \<and> (n = \<lfloor>x\<rfloor> \<longleftrightarrow> 0 \<le> x \<or> x \<in> \<int>)
     | _ \<Rightarrow> False"
  proof (cases tb)
    case (PyFloat x)
    with n have "py_int (PyFloat x) = Inr n" by simp
    from py_int_PyFloat_floor [OF this] PyFloat show ?thesis
      by (simp add: ceiling_eq_floor_iff)
  qed (use n in auto)
  have "t' = t @ [?r]" using t' by (simp add: objects_create_def)
  moreover have "(\<forall>s. digest_render (hash_provider env) s \<noteq> []) \<longrightarrow> chunk_hash ?r \<noteq> []"
    by (simp add: chunk_hash_fn_def)
  ultimately show ?thesis using n d shape by (intro exI [of _ ?r] exI [of _ n]) simp
qed

text \<open>
  The scenario of the specification: \<^verbatim>\<open>accelerometer\<close>, raw time bin 1000, content
  \<^verbatim>\<open>data\<close>, quantum 3600.
\<close>

theorem register_chunked_data_record_witness:
  "register_chunked_data sample_env ''accelerometer'' (PyInt 1000) ''/chunks/x'' ''data''
       1 2 None [] =
     (Inr (), [\<lparr>pk = 1, is_chunkable = True, chunk_path = ''/chunks/x'',
                chunk_hash = ''hhhhh'', data_type = ''accelerometer'',
                time_bin = 1000 * 3600 * 1000000, study_id = 1, participant_id = 2,
                survey_id = None\<rparr>]) \<and>
   fromtimestamp sample_env (PyInt (1000 * CHUNK_TIMESLICE_QUANTUM sample_env)) =
     Inr (1000 * 3600 * 1000000) \<and>
   chunk_hash_fn (hash_provider sample_env) ''data'' = ''hhhhh''"
proof -
  let ?r = "\<lparr>pk = 1, is_chunkable = True, chunk_path = ''/chunks/x'',
             chunk_hash = ''hhhhh'', data_type = ''accelerometer'',
             time_bin = 1000 * 3600 * 1000000, study_id = 1, participant_id = 2,
             survey_id = None\<rparr>"
  have run: "register_chunked_data sample_env ''accelerometer'' (PyInt 1000) ''/chunks/x''
      ''data'' 1 2 None [] = (Inr (), [?r])"
    by (simp add: register_chunked_data_def sample_env_def objects_create_def fresh_pk_def
        chunk_hash_fn_def digest_update_def unary_digest_def)
  from register_chunked_data_record [OF run]
  obtain r n where "[?r] = [] @ [r]" "py_int (PyInt 1000) = Inr n"
    "fromtimestamp sample_env (PyInt (n * CHUNK_TIMESLICE_QUANTUM sample_env)) =
       Inr (time_bin r)"
    "chunk_hash r = chunk_hash_fn (hash_provider sample_env) ''data''"
    by blast
  then show ?thesis using run by auto
qed

text \<open>
  The raw time bin \<open>-1.5\<close>: \<^verbatim>\<open>int(-1.5)\<close> is \<open>-1\<close>, so the row lies one quantum before
  the epoch, while \<open>\<lfloor>-1.5\<rfloor> * CHUNK_TIMESLICE_QUANTUM\<close> is two quanta before it.
\<close>

theorem register_chunked_floor_counterexample:
  "fst (register_chunked_data sample_env ''accelerometer'' (PyFloat (- (3 / 2)))
          ''/chunks/x'' ''data'' 1 2 None []) = Inr () \<and>
   map time_bin (snd (register_chunked_data sample_env ''accelerometer''
          (PyFloat (- (3 / 2))) ''/chunks/x'' ''data'' 1 2 None [])) =
     [- 1 * 3600 * 1000000] \<and>
   fromtimestamp sample_env
       (PyInt (\<lfloor>- (3 / 2) :: rat\<rfloor> * CHUNK_TIMESLICE_QUANTUM sample_env)) =
     Inr (- 2 * 3600 * 1000000)"
proof -
  have f1: "\<lfloor>- (3 / 2) :: rat\<rfloor> = - 2" by linarith
  have f2: "\<lfloor>3 / 2 :: rat\<rfloor> = 1" by linarith
  show ?thesis
    by (simp add: register_chunked_data_def sample_env_def objects_create_def f1 f2)
qed

section \<open>The classification invariant\<close>

lemma set_save: "set (save self t) \<subseteq> insert self (set t)"
  by (auto simp: save_def)

lemma objects_get_in: "objects_get k t = Inr self \<Longrightarrow> self \<in> set t"
proof -
  assume "objects_get k t = Inr self"
  then have "filter (\<lambda>r. pk r = k) t = [self]"
    by (auto simp: objects_get_def split: list.splits)
  then have "self \<in> set (filter (\<lambda>r. pk r = k) t)" by simp
  then show ?thesis by simp
qed

lemma after_call_classified:
  assumes nonempty: "\<forall>s. digest_render (hash_provider env) s \<noteq> []"
    and inv: "\<forall>r\<in>set t. classified env r"
  shows "\<forall>r\<in>set (after_call env t c). classified env r"
proof (cases c)
  case (Register_chunked_data dt tb cp fc sid pid svid)
  then show ?thesis using inv nonempty
    by (auto simp: register_chunked_data_def objects_create_def classified_def
        chunk_hash_fn_def Let_def split: sum.splits)
next
  case (Register_unchunked_data dt tb cp sid pid svid)
  then show ?thesis using inv
    by (auto simp: register_unchunked_data_def objects_create_def classified_def
        split: sum.splits)
next
  case (Update_chunk_hash k data)
  show ?thesis
  proof (cases "objects_get k t")
    case (Inl e)
    with Update_chunk_hash inv show ?thesis by simp
  next
    case (Inr self)
    let ?self = "self\<lparr>chunk_hash := chunk_hash_fn (hash_provider env) data\<rparr>"
    from Inr inv have "classified env self" using objects_get_in by blast
    then have "classified env ?self" using nonempty
      by (simp add: classified_def chunk_hash_fn_def)
    with inv set_save [of ?self t] Inr Update_chunk_hash show ?thesis
      by (auto simp: update_chunk_hash_def Let_def)
  qed
next
  case (Low_memory_update_chunk_hash k frags)
  show ?thesis
  proof (cases "objects_get k t")
    case (Inl e)
    with Low_memory_update_chunk_hash inv show ?thesis by simp
  next
    case (Inr self)
    let ?self = "self\<lparr>chunk_hash := low_memory_chunk_hash (hash_provider env) frags\<rparr>"
    from Inr inv have "classified env self" using objects_get_in by blast
    then have "classified env ?self" using nonempty
      by (simp add: classified_def low_memory_chunk_hash_def)
    with inv set_save [of ?self t] Inr Low_memory_update_chunk_hash show ?thesis
      by (auto simp: low_memory_update_chunk_hash_def Let_def)
  qed
qed

lemma foldl_after_call_classified:
  assumes "\<forall>s. digest_render (hash_provider env) s \<noteq> []"
  shows "\<forall>r\<in>set t. classified env r \<Longrightarrow>
         \<forall>r\<in>set (foldl (after_call env) t calls). classified env r"
proof (induction calls arbitrary: t)
  case Nil
  then show ?case by simp
next
  case (Cons c calls)
  from after_call_classified [OF assms Cons.prems]
  have "\<forall>r\<in>set (after_call env t c). classified env r" .
  from Cons.IH [OF this] show ?case by simp
qed

lemma foldl_registrations_hash:
  "\<forall>c\<in>set calls. is_registration c \<Longrightarrow>
   \<forall>r\<in>set t. chunk_hash r \<noteq> [] \<longrightarrow> is_chunkable r \<Longrightarrow>
   \<forall>r\<in>set (foldl (after_call env) t calls). chunk_hash r \<noteq> [] \<longrightarrow> is_chunkable r"
proof (induction calls arbitrary: t)
  case Nil
  then show ?case by simp
next
  case (Cons c calls)
  have "\<forall>r\<in>set (after_call env t c). chunk_hash r \<noteq> [] \<longrightarrow> is_chunkable r"
  proof (cases c)
    case (Register_chunked_data dt tb cp fc sid pid svid)
    then show ?thesis using Cons.prems(2)
      by (auto simp: register_chunked_data_def objects_create_def Let_def split: sum.splits)
  next
    case (Register_unchunked_data dt tb cp sid pid svid)
    then show ?thesis using Cons.prems(2)
      by (auto simp: register_unchunked_data_def objects_create_def split: sum.splits)
  qed (use Cons.prems(1) in auto)
  moreover have "\<forall>c\<in>set calls. is_registration c" using Cons.prems(1) by simp
  ultimately show ?case using Cons.IH by simp
qed

text \<open>
  C4, as the code has it. Let the hash provider never render an empty fingerprint. After
  any sequence of registrations and hash updates on an empty registry, every row is
  chunkable exactly when its data type is in \<open>CHUNKABLE_FILES\<close>, and a chunkable row has
  a non-empty \<open>chunk_hash\<close>. The converse, that a row with a non-empty \<open>chunk_hash\<close> is
  chunkable, holds as long as only registrations have run: the two hash updates assign a
  hash to whatever row they are called on.
\<close>

theorem chunk_record_invariant:
  assumes "\<forall>s. digest_render (hash_provider env) s \<noteq> []"
  shows "\<forall>r\<in>set (registry_after env calls).
           (is_chunkable r \<longleftrightarrow> data_type r \<in> set (CHUNKABLE_FILES env)) \<and>
           (is_chunkable r \<longrightarrow> chunk_hash r \<noteq> []) \<and>
           ((\<forall>c\<in>set calls. is_registration c) \<longrightarrow> chunk_hash r \<noteq> [] \<longrightarrow> is_chunkable r)"
proof
  fix r
  assume r: "r \<in> set (registry_after env calls)"
  have "classified env r"
    using foldl_after_call_classified [OF assms, of "[]" calls] r
    by (simp add: registry_after_def)
  moreover have "(\<forall>c\<in>set calls. is_registration c) \<longrightarrow> chunk_hash r \<noteq> [] \<longrightarrow> is_chunkable r"
    using foldl_registrations_hash [of calls "[]" env] r
    by (auto simp: registry_after_def)
  ultimately show "(is_chunkable r \<longleftrightarrow> data_type r \<in> set (CHUNKABLE_FILES env)) \<and>
           (is_chunkable r \<longrightarrow> chunk_hash r \<noteq> []) \<and>
           ((\<forall>c\<in>set calls. is_registration c) \<longrightarrow> chunk_hash r \<noteq> [] \<longrightarrow> is_chunkable r)"
    by (simp add: classified_def)
qed

lemma sample_calls_run:
  "registry_after sample_env sample_calls =
     [\<lparr>pk = 1, is_chunkable = False, chunk_path = ''/raw/y'', chunk_hash = ''hhhhh'',
        data_type = ''survey_answers'', time_bin = 1000000000, study_id = 1,
        participant_id = 2, survey_id = None\<rparr>,
      \<lparr>pk = 2, is_chunkable = True, chunk_path = ''/chunks/x'', chunk_hash = ''hhhhh'',
        data_type = ''gps'', time_bin = 3600000000000, study_id = 1, participant_id = 2,
        survey_id = None\<rparr>]"
  by (simp add: registry_after_def sample_calls_def register_unchunked_data_def
      register_chunked_data_def sample_env_def objects_create_def fresh_pk_def
      chunk_hash_fn_def digest_update_def unary_digest_def objects_get_def
      update_chunk_hash_def save_def Let_def)

theorem chunk_record_invariant_witness:
  "(\<forall>s. digest_render (hash_provider sample_env) s \<noteq> []) \<and>
   length (registry_after sample_env sample_calls) = 2 \<and>
   list_all (\<lambda>r. (is_chunkable r \<longleftrightarrow> data_type r \<in> set (CHUNKABLE_FILES sample_env)) \<and>
                 (is_chunkable r \<longrightarrow> chunk_hash r \<noteq> []))
     (registry_after sample_env sample_calls)"
proof -
  have h: "\<forall>s. digest_render (hash_provider sample_env) s \<noteq> []"
    by (simp add: sample_env_def unary_digest_def)
  from chunk_record_invariant [OF h, of sample_calls]
  have "list_all (\<lambda>r. (is_chunkable r \<longleftrightarrow> data_type r \<in> set (CHUNKABLE_FILES sample_env)) \<and>
                      (is_chunkable r \<longrightarrow> chunk_hash r \<noteq> []))
          (registry_after sample_env sample_calls)"
    by (simp add: list_all_iff)
  with h show ?thesis by (simp add: sample_calls_run)
qed

text \<open>
  The first row of the sample run: registered as unchunked with an empty hash, it is
  given a hash by \<open>update_chunk_hash\<close> and stays unchunkable.
\<close>

theorem hash_update_invariant_counterexample:
  "map is_chunkable
     (registry_after sample_env
        [Register_unchunked_data ''survey_answers'' (PyInt 1000) ''/raw/y'' 1 2 None,
         Update_chunk_hash 1 ''data'']) = [False] \<and>
   map chunk_hash
     (registry_after sample_env
        [Register_unchunked_data ''survey_answers'' (PyInt 1000) ''/raw/y'' 1 2 None,
         Update_chunk_hash 1 ''data'']) = [''hhhhh''] \<and>
   map data_type
     (registry_after sample_env
        [Register_unchunked_data ''survey_answers'' (PyInt 1000) ''/raw/y'' 1 2 None,
         Update_chunk_hash 1 ''data'']) = [''survey_answers''] \<and>
   ''survey_answers'' \<notin> set (CHUNKABLE_FILES sample_env)"
  by (simp add: registry_after_def register_unchunked_data_def sample_env_def
      objects_create_def fresh_pk_def chunk_hash_fn_def digest_update_def unary_digest_def
      objects_get_def update_chunk_hash_def save_def Let_def)

section \<open>The lock, called in sequence\<close>

lemma after_lock_call_stamped: "stamped t \<Longrightarrow> stamped (after_lock_call t c)"
  by (cases c; cases t)
    (auto simp: stamped_def lock_def islocked_def lock_objects_create_def unlock_def
      get_time_since_locked_def split: option.splits)

lemma foldl_after_lock_call_stamped:
  "stamped t \<Longrightarrow> stamped (foldl after_lock_call t calls)"
  by (induction calls arbitrary: t) (simp_all add: after_lock_call_stamped)

lemma lock_table_after_stamped: "stamped (lock_table_after calls)"
  unfolding lock_table_after_def
  by (rule foldl_after_lock_call_stamped) (simp add: stamped_def)

text \<open>
  C5, as the code has it. As long as the calls of \<open>lock\<close>, \<open>unlock\<close>, \<open>islocked\<close> and
  \<open>get_time_since_locked\<close> are made one after the other, each finishing before the next
  begins, the table reached from the empty one holds at most one row, after every call.
  There \<open>lock\<close> returns on an empty table, leaving the one row stamped with the reading
  of the clock, and raises \<open>FileProcessingLockedError\<close> on any other table, leaving it as
  it is; \<open>unlock\<close> empties the table; the two readers leave it.
\<close>

theorem sequential_lock_records:
  "length (lock_table_after calls) \<le> 1 \<and>
   (t = [] \<longrightarrow>
      fst (lock utcnow t) = Inr () \<and> map lock_time (snd (lock utcnow t)) = [Some utcnow]) \<and>
   (t \<noteq> [] \<longrightarrow> lock utcnow t = (Inl FileProcessingLockedError, t)) \<and>
   unlock t = (Inr (), []) \<and>
   after_lock_call t Islocked = t \<and>
   after_lock_call t (Get_time_since_locked utcnow) = t"
  using lock_table_after_stamped [of calls]
  by (auto simp: stamped_def lock_def islocked_def lock_objects_create_def
      unlock_def get_time_since_locked_def split: option.splits)

theorem sequential_lock_records_witness:
  "map lock_time
     (lock_table_after
        [Lock 10, Get_time_since_locked 15, Lock 20, Unlock, Unlock, Islocked, Lock 30]) =
     [Some 30] \<and>
   map lock_time (lock_table_after [Lock 10, Get_time_since_locked 15, Lock 20]) =
     [Some 10] \<and>
   lock_table_after [Lock 10, Get_time_since_locked 15, Lock 20, Unlock, Unlock] = [] \<and>
   fst (lock 10 []) = Inr () \<and>
   map lock_time (snd (lock 10 [])) = [Some 10] \<and>
   lock 20 [\<lparr>pk = 1, lock_time = Some 10\<rparr>] =
     (Inl FileProcessingLockedError, [\<lparr>pk = 1, lock_time = Some 10\<rparr>])"
  using sequential_lock_records [of
      "[Lock 10, Get_time_since_locked 15, Lock 20, Unlock, Unlock, Islocked, Lock 30]"
      "[]" 10]
    sequential_lock_records [of "[]" "[\<lparr>pk = 1, lock_time = Some 10\<rparr>]" 20]
  by (simp add: lock_table_after_def lock_def islocked_def lock_objects_create_def
      unlock_def get_time_since_locked_def objects_last_def)

text \<open>
  Without that proviso the bound fails. Two calls of \<open>lock\<close> overlap on the empty table,
  the second caller testing first: both return and the table holds two rows. The
  insertion of the first caller, who had seen the table empty, runs on a table that
  holds a row.
\<close>

theorem overlapping_locks_two_records_counterexample:
  "fst (interleave [(Second, 10), (First, 11), (Second, 12), (First, 13)]
          (Called, Called, [])) = Returned \<and>
   fst (snd (interleave [(Second, 10), (First, 11), (Second, 12), (First, 13)]
          (Called, Called, []))) = Returned \<and>
   map lock_time
     (snd (snd (interleave [(Second, 10), (First, 11), (Second, 12), (First, 13)]
          (Called, Called, [])))) = [Some 12, Some 13] \<and>
   islocked [\<lparr>pk = 1, lock_time = Some 12\<rparr>] \<and>
   fst (lock_step 13 Seen_unlocked [\<lparr>pk = 1, lock_time = Some 12\<rparr>]) = Returned \<and>
   map lock_time (snd (lock_step 13 Seen_unlocked [\<lparr>pk = 1, lock_time = Some 12\<rparr>])) =
     [Some 12, Some 13]"
  by (simp add: islocked_def lock_objects_create_def)

section \<open>The age of the lock\<close>

text \<open>
  C7, as the code has it. On a table reached by calls made one after the other:
  when the lock is held, \<open>get_time_since_locked\<close> returns the reading of the clock minus
  the \<open>lock_time\<close> of the row; when it is not, \<^verbatim>\<open>objects.last()\<close> is \<^verbatim>\<open>None\<close> and the
  call raises \<open>AttributeError\<close>. The module tests nothing before the read and declares no
  exception of its own for this case.
\<close>

theorem time_since_locked:
  "(islocked (lock_table_after calls) \<longrightarrow>
      (\<exists>lt. lock_time (last (lock_table_after calls)) = Some lt \<and>
            get_time_since_locked utcnow (lock_table_after calls) =
              (Inr (utcnow - lt), lock_table_after calls))) \<and>
   (\<not> islocked (lock_table_after calls) \<longrightarrow>
      get_time_since_locked utcnow (lock_table_after calls) =
        (Inl AttributeError, lock_table_after calls))"
  using lock_table_after_stamped [of calls]
  by (cases "lock_table_after calls")
     (auto simp: stamped_def islocked_def get_time_since_locked_def objects_last_def)

theorem time_since_locked_witness:
  "islocked (lock_table_after [Lock 10]) \<and>
   get_time_since_locked 25 (lock_table_after [Lock 10]) =
     (Inr 15, [\<lparr>pk = 1, lock_time = Some 10\<rparr>]) \<and>
   \<not> islocked (lock_table_after [Lock 10, Unlock]) \<and>
   get_time_since_locked 25 (lock_table_after [Lock 10, Unlock]) = (Inl AttributeError, [])"
  using time_since_locked [of "[Lock 10]" 25] time_since_locked [of "[Lock 10, Unlock]" 25]
  by (simp add: lock_table_after_def lock_def islocked_def lock_objects_create_def
      fresh_pk_def unlock_def)

text \<open>
  On the empty table the failure is Python's \<open>AttributeError\<close>, which is none of the
  three exception classes of the module.
\<close>

theorem time_since_locked_counterexample:
  "get_time_since_locked 25 [] = (Inl AttributeError, []) \<and>
   AttributeError \<notin>
     {FileProcessingLockedError, UnchunkableDataTypeError, ChunkableDataTypeError}"
  by (simp add: get_time_since_locked_def objects_last_def)

section \<open>The lock, called by two at once\<close>

lemma lock_step_accounted_first:
  "accounted (a, b, t) \<Longrightarrow> lock_step utcnow a t = (a', t') \<Longrightarrow> accounted (a', b, t')"
  by (cases a; cases b)
    (auto simp: islocked_def lock_objects_create_def split: if_splits)

lemma lock_step_accounted_second:
  "accounted (a, b, t) \<Longrightarrow> lock_step utcnow b t = (b', t') \<Longrightarrow> accounted (a, b', t')"
  by (cases a; cases b)
    (auto simp: islocked_def lock_objects_create_def split: if_splits)

lemma interleave_accounted: "accounted s \<Longrightarrow> accounted (interleave sch s)"
proof (induction sch s rule: interleave.induct)
  case (1 s)
  then show ?case by simp
next
  case (2 utcnow sch a b t)
  obtain a' t' where step: "lock_step utcnow a t = (a', t')" by force
  with "2.prems" have "accounted (a', b, t')" by (rule lock_step_accounted_first)
  with "2.IH" step show ?case by simp
next
  case (3 utcnow sch a b t)
  obtain b' t' where step: "lock_step utcnow b t = (b', t')" by force
  with "3.prems" have "accounted (a, b', t')" by (rule lock_step_accounted_second)
  with "3.IH" step show ?case by simp
qed

text \<open>
  C1, as the code has it. Two callers enter \<open>lock\<close> on the empty table and their steps
  alternate in any order. At every moment the table holds one row for each caller that
  has returned. Once both have finished, each has returned or raised
  \<open>FileProcessingLockedError\<close>, and at least one has returned, so the table holds one
  row or two. When the first caller finishes before the second starts, the first returns,
  the second raises, and one row is left; indeed the two steps of one caller, taken
  without interruption, are \<open>lock\<close>.
\<close>

theorem two_callers_of_lock:
  assumes "interleave sch (Called, Called, []) = (a, b, t)"
  shows "length t = acquired a + acquired b \<and>
         (finished a \<and> finished b \<longrightarrow>
            (a = Returned \<or> a = Raised FileProcessingLockedError) \<and>
            (b = Returned \<or> b = Raised FileProcessingLockedError) \<and>
            (a = Returned \<or> b = Returned) \<and> 1 \<le> length t \<and> length t \<le> 2) \<and>
         interleave [(First, u1), (First, u2), (Second, u3), (Second, u4)]
             (Called, Called, []) =
           (Returned, Raised FileProcessingLockedError, [\<lparr>pk = 1, lock_time = Some u2\<rparr>]) \<and>
         lock_step u2 (fst (lock_step u1 Called t0)) (snd (lock_step u1 Called t0)) =
           (case lock u2 t0 of (Inl e, t1) \<Rightarrow> (Raised e, t1) | (Inr u, t1) \<Rightarrow> (Returned, t1))"
proof -
  have "accounted (interleave sch (Called, Called, []))"
    by (rule interleave_accounted) simp
  with assms have acc: "accounted (a, b, t)" by simp
  have 1: "length t = acquired a + acquired b" using acc by simp
  have 2: "finished a \<and> finished b \<longrightarrow>
            (a = Returned \<or> a = Raised FileProcessingLockedError) \<and>
            (b = Returned \<or> b = Raised FileProcessingLockedError) \<and>
            (a = Returned \<or> b = Returned) \<and> 1 \<le> length t \<and> length t \<le> 2"
    using acc by (cases a; cases b) auto
  have 3: "interleave [(First, u1), (First, u2), (Second, u3), (Second, u4)]
             (Called, Called, []) =
           (Returned, Raised FileProcessingLockedError, [\<lparr>pk = 1, lock_time = Some u2\<rparr>])"
    by (simp add: islocked_def lock_objects_create_def fresh_pk_def)
  have 4: "lock_step u2 (fst (lock_step u1 Called t0)) (snd (lock_step u1 Called t0)) =
           (case lock u2 t0 of (Inl e, t1) \<Rightarrow> (Raised e, t1) | (Inr u, t1) \<Rightarrow> (Returned, t1))"
    by (simp add: lock_def)
  from 1 2 3 4 show ?thesis by blast
qed

theorem two_callers_of_lock_witness:
  "interleave [(First, 10), (Second, 11), (Second, 12), (First, 13)] (Called, Called, []) =
     (Returned, Returned,
      [\<lparr>pk = 1, lock_time = Some 12\<rparr>, \<lparr>pk = 2, lock_time = Some 13\<rparr>]) \<and>
   interleave [(First, 10), (First, 11), (Second, 12), (Second, 13)] (Called, Called, []) =
     (Returned, Raised FileProcessingLockedError, [\<lparr>pk = 1, lock_time = Some 11\<rparr>])"
proof -
  have run: "interleave [(First, 10), (Second, 11), (Second, 12), (First, 13)]
      (Called, Called, []) =
     (Returned, Returned,
      [\<lparr>pk = 1, lock_time = Some 12\<rparr>, \<lparr>pk = 2, lock_time = Some 13\<rparr>])"
    by (simp add: islocked_def lock_objects_create_def fresh_pk_def)
  from two_callers_of_lock [OF run, of 10 11 12 13] run show ?thesis by simp
qed

text \<open>
  Both callers test the empty table before either inserts: both return, and two rows are
  left.
\<close>

theorem two_callers_both_lock_counterexample:
  "interleave [(First, 10), (Second, 11), (First, 12), (Second, 13)] (Called, Called, []) =
     (Returned, Returned,
      [\<lparr>pk = 1, lock_time = Some 12\<rparr>, \<lparr>pk = 2, lock_time = Some 13\<rparr>])"
  by (simp add: islocked_def lock_objects_create_def fresh_pk_def)

section \<open>The queued path\<close>

lemma take_eq_prefix:
  "length oid = n \<Longrightarrow> take n file_path = oid \<longleftrightarrow> prefix oid file_path"
proof
  assume len: "length oid = n" and "take n file_path = oid"
  then have "file_path = oid @ drop n file_path"
    by (metis append_take_drop_id)
  then show "prefix oid file_path"
    by (metis prefixI)
next
  assume len: "length oid = n" and "prefix oid file_path"
  then obtain rest where "file_path = oid @ rest"
    by (auto simp: prefix_def)
  with len show "take n file_path = oid"
    by simp
qed

lemma take_eq_other_length:
  "length oid \<noteq> n \<Longrightarrow> take n file_path = oid \<longleftrightarrow> file_path = oid \<and> length oid < n"
proof
  assume ne: "length oid \<noteq> n" and eq: "take n file_path = oid"
  then have "min (length file_path) n = length oid"
    by (metis length_take)
  with ne have "length file_path < n" "length oid < n"
    by (auto simp: min_def split: if_splits)
  with eq show "file_path = oid \<and> length oid < n"
    by simp
next
  assume "length oid \<noteq> n" and "file_path = oid \<and> length oid < n"
  then show "take n file_path = oid"
    by simp
qed

text \<open>
  C6, as the code has it. When exactly one study has the identifier,
  \<open>append_file_for_processing\<close> appends one row; its path is the file path as given when
  the first 24 characters of the file path are the identifier, and the identifier, a
  slash and the file path otherwise. For an identifier of 24 characters the test is the
  test for a prefix; for an identifier of any other length it holds only of a file path
  that is the identifier itself, so a path that such an identifier merely prefixes is
  prefixed once more.
\<close>

theorem append_file_for_processing_path:
  assumes "study_pk_get studies study_object_id = Inr k"
  shows "append_file_for_processing studies file_path study_object_id p t =
           (Inr (), t @ [\<lparr>pk = fresh_pk t,
                           s3_file_path = (if take 24 file_path = study_object_id then file_path
                                           else study_object_id @ ''/'' @ file_path),
                           study = k, participant = p\<rparr>]) \<and>
         (length study_object_id = 24 \<longrightarrow>
            (take 24 file_path = study_object_id \<longleftrightarrow> prefix study_object_id file_path)) \<and>
         (length study_object_id \<noteq> 24 \<longrightarrow>
            (take 24 file_path = study_object_id \<longleftrightarrow>
               file_path = study_object_id \<and> length study_object_id < 24))"
  using assms take_eq_prefix [of study_object_id 24 file_path]
    take_eq_other_length [of study_object_id 24 file_path]
  by (simp add: append_file_for_processing_def)

theorem append_file_for_processing_path_witness:
  "study_pk_get [\<lparr>pk = 7, object_id = ''5873fe38644ad7557b168e43''\<rparr>]
     ''5873fe38644ad7557b168e43'' = Inr 7 \<and>
   append_file_for_processing [\<lparr>pk = 7, object_id = ''5873fe38644ad7557b168e43''\<rparr>]
       ''5873fe38644ad7557b168e43/device.csv'' ''5873fe38644ad7557b168e43'' 2 [] =
     (Inr (), [\<lparr>pk = 1, s3_file_path = ''5873fe38644ad7557b168e43/device.csv'',
                 study = 7, participant = 2\<rparr>]) \<and>
   append_file_for_processing [\<lparr>pk = 7, object_id = ''5873fe38644ad7557b168e43''\<rparr>]
       ''device.csv'' ''5873fe38644ad7557b168e43'' 2 [] =
     (Inr (), [\<lparr>pk = 1, s3_file_path = ''5873fe38644ad7557b168e43/device.csv'',
                 study = 7, participant = 2\<rparr>])"
proof -
  have h: "study_pk_get [\<lparr>pk = 7, object_id = ''5873fe38644ad7557b168e43''\<rparr>]
     ''5873fe38644ad7557b168e43'' = Inr 7"
    by (simp add: study_pk_get_def)
  from append_file_for_processing_path
         [OF h, of "''5873fe38644ad7557b168e43/device.csv''" 2 "[]"]
    append_file_for_processing_path [OF h, of "''device.csv''" 2 "[]"] h
  show ?thesis by (simp add: fresh_pk_def)
qed

text \<open>
  The first scenario of the specification, with its identifier of six characters: the
  first 24 characters of \<^verbatim>\<open>abc123/device.csv\<close> are the whole path, not \<^verbatim>\<open>abc123\<close>, and
  the identifier is put in front a second time.
\<close>

theorem append_file_short_identifier_counterexample:
  "append_file_for_processing [\<lparr>pk = 7, object_id = ''abc123''\<rparr>]
       ''abc123/device.csv'' ''abc123'' 2 [] =
     (Inr (), [\<lparr>pk = 1, s3_file_path = ''abc123/abc123/device.csv'',
                 study = 7, participant = 2\<rparr>])"
  by (simp add: append_file_for_processing_def study_pk_get_def fresh_pk_def)

section \<open>The filters of the range query\<close>

text \<open>
  C8, as the code has it. \<open>get_chunks_time_range\<close> returns, in the order of the table,
  exactly the rows of the study that pass every filter given, the time bounds included
  on both ends, where an argument counts as given when it is true in Python: a list that
  is \<^verbatim>\<open>None\<close> or empty, and a time that is \<^verbatim>\<open>None\<close> or otherwise false, restrict
  nothing.
\<close>

theorem get_chunks_time_range_filters:
  "get_chunks_time_range patient_id sid user_ids data_types start end t =
     get_range_spec patient_id sid (given_list user_ids) (given_list data_types)
       (given_time start) (given_time end) t"
proof -
  have "list_all (matches patient_id r)
          ([Study_id sid]
           @ (if truthy_list user_ids then [Participant__patient_id__in (the user_ids)] else [])
           @ (if truthy_list data_types then [Data_type__in (the data_types)] else [])
           @ (case start of ArgDatetime d \<Rightarrow> [Time_bin__gte d] | _ \<Rightarrow> [])
           @ (case end of ArgDatetime d \<Rightarrow> [Time_bin__lte d] | _ \<Rightarrow> [])) \<longleftrightarrow>
        study_id r = sid \<and>
        (case given_list user_ids of None \<Rightarrow> True
         | Some us \<Rightarrow> (case patient_id (participant_id r) of None \<Rightarrow> False
                       | Some p \<Rightarrow> p \<in> set us)) \<and>
        (case given_list data_types of None \<Rightarrow> True | Some ds \<Rightarrow> data_type r \<in> set ds) \<and>
        (case given_time start of None \<Rightarrow> True | Some d \<Rightarrow> d \<le> time_bin r) \<and>
        (case given_time end of None \<Rightarrow> True | Some d \<Rightarrow> time_bin r \<le> d)" for r
    by (cases user_ids; cases data_types; cases start; cases "end") auto
  moreover have "get_chunks_time_range patient_id sid user_ids data_types start end t =
      objects_filter patient_id ([Study_id sid]
           @ (if truthy_list user_ids then [Participant__patient_id__in (the user_ids)] else [])
           @ (if truthy_list data_types then [Data_type__in (the data_types)] else [])
           @ (case start of ArgDatetime d \<Rightarrow> [Time_bin__gte d] | _ \<Rightarrow> [])
           @ (case end of ArgDatetime d \<Rightarrow> [Time_bin__lte d] | _ \<Rightarrow> [])) t"
    by (cases start; cases "end") (simp_all add: get_chunks_time_range_def Let_def)
  ultimately show ?thesis
    by (simp add: objects_filter_def get_range_spec_def)
qed

theorem get_chunks_time_range_filters_witness:
  "get_chunks_time_range sample_patient_id 1 None None (ArgDatetime 100) (ArgDatetime 499)
     sample_rows = [sample_rows ! 0] \<and>
   get_chunks_time_range sample_patient_id 1 (Some [''patient2'', ''patient3''])
     (Some [''accelerometer'']) ArgNone (ArgDatetime 500) sample_rows = [sample_rows ! 1]"
  using get_chunks_time_range_filters [of sample_patient_id 1 None None "ArgDatetime 100"
      "ArgDatetime 499" sample_rows]
    get_chunks_time_range_filters [of sample_patient_id 1 "Some [''patient2'', ''patient3'']"
      "Some [''accelerometer'']" ArgNone "ArgDatetime 500" sample_rows]
  by (simp add: get_range_spec_def sample_rows_def sample_patient_id_def)

text \<open>
  An empty list of participants is provided, and restricts nothing: the two rows of
  study 1 are returned, where the query as the specification words it returns none.
\<close>

theorem get_range_empty_list_counterexample:
  "get_chunks_time_range sample_patient_id 1 (Some []) None ArgNone ArgNone sample_rows =
     [sample_rows ! 0, sample_rows ! 1] \<and>
   get_range_spec sample_patient_id 1 (Some []) None None None sample_rows = []"
  by (simp add: get_chunks_time_range_def objects_filter_def get_range_spec_def
      sample_rows_def sample_patient_id_def)

text \<open>
  C10. An empty \<open>user_ids\<close> or \<open>data_types\<close> list gives the result of \<^verbatim>\<open>None\<close>, and
  so does a false \<open>start\<close> or \<open>end\<close>, whatever the other arguments are; with all four
  false the result is every row of the study.
\<close>

theorem falsy_filter_is_absent:
  "get_chunks_time_range patient_id sid (Some []) data_types start end t =
     get_chunks_time_range patient_id sid None data_types start end t \<and>
   get_chunks_time_range patient_id sid user_ids (Some []) start end t =
     get_chunks_time_range patient_id sid user_ids None start end t \<and>
   get_chunks_time_range patient_id sid user_ids data_types ArgFalsy end t =
     get_chunks_time_range patient_id sid user_ids data_types ArgNone end t \<and>
   get_chunks_time_range patient_id sid user_ids data_types start ArgFalsy t =
     get_chunks_time_range patient_id sid user_ids data_types start ArgNone t \<and>
   get_chunks_time_range patient_id sid (Some []) (Some []) ArgFalsy ArgFalsy t =
     filter (\<lambda>r. study_id r = sid) t"
  by (simp add: get_chunks_time_range_def objects_filter_def)

theorem falsy_filter_is_absent_witness:
  "get_chunks_time_range sample_patient_id 1 (Some []) (Some []) ArgFalsy ArgFalsy
     sample_rows = [sample_rows ! 0, sample_rows ! 1] \<and>
   get_chunks_time_range sample_patient_id 1 None None ArgNone ArgNone sample_rows =
     [sample_rows ! 0, sample_rows ! 1]"
  using falsy_filter_is_absent [of sample_patient_id 1 None ArgNone ArgNone sample_rows None]
  by (simp add: sample_rows_def get_chunks_time_range_def objects_filter_def)

end
